theory Spec2Isabelle
  imports Complex_Main
begin

section \<open>Python values used by the validation engine\<close>

text \<open>
  Exceptions of the Python code are values: a function that can raise returns
  \<open>py_error + 'a\<close>, with \<open>Inl\<close> for the exception.
\<close>

datatype py_error = OverflowError | ZeroDivisionError | ValueError | IndexError | KeyError

subsection \<open>Floating-point numbers\<close>

text \<open>
  A float is a real number, one of the two infinities, or NaN. Rounding and overflow
  of finite results are not modelled (finite arithmetic is exact), and neither is the
  sign of zero. Infinities and NaN arise the way numpy creates them: from a division
  by zero, from \<open>inf - inf\<close>, \<open>0 * inf\<close>, the square root or a fractional power of a
  negative number, and from pandas reductions over too few values.
\<close>

datatype flt = Fin real | PInf | NInf | NaN

fun fneg :: "flt \<Rightarrow> flt" where
  "fneg (Fin a) = Fin (- a)"
| "fneg PInf = NInf"
| "fneg NInf = PInf"
| "fneg NaN = NaN"

fun fadd :: "flt \<Rightarrow> flt \<Rightarrow> flt" where
  "fadd (Fin a) (Fin b) = Fin (a + b)"
| "fadd NaN _ = NaN"
| "fadd _ NaN = NaN"
| "fadd PInf NInf = NaN"
| "fadd NInf PInf = NaN"
| "fadd PInf _ = PInf"
| "fadd _ PInf = PInf"
| "fadd NInf _ = NInf"
| "fadd _ NInf = NInf"

definition fsub :: "flt \<Rightarrow> flt \<Rightarrow> flt" where
  "fsub a b = fadd a (fneg b)"

definition inf_signed :: "real \<Rightarrow> flt" where
  "inf_signed s = (if s = 0 then NaN else if 0 < s then PInf else NInf)"

fun fmul :: "flt \<Rightarrow> flt \<Rightarrow> flt" where
  "fmul (Fin a) (Fin b) = Fin (a * b)"
| "fmul NaN _ = NaN"
| "fmul _ NaN = NaN"
| "fmul (Fin a) PInf = inf_signed a"
| "fmul (Fin a) NInf = inf_signed (- a)"
| "fmul PInf (Fin b) = inf_signed b"
| "fmul NInf (Fin b) = inf_signed (- b)"
| "fmul PInf PInf = PInf"
| "fmul NInf NInf = PInf"
| "fmul PInf NInf = NInf"
| "fmul NInf PInf = NInf"

text \<open>numpy division: a finite nonzero number over zero is an infinity, \<open>0 / 0\<close> is NaN.\<close>

fun fdiv :: "flt \<Rightarrow> flt \<Rightarrow> flt" where
  "fdiv (Fin a) (Fin b) = (if b = 0 then inf_signed a else Fin (a / b))"
| "fdiv NaN _ = NaN"
| "fdiv _ NaN = NaN"
| "fdiv (Fin a) PInf = Fin 0"
| "fdiv (Fin a) NInf = Fin 0"
| "fdiv PInf (Fin b) = (if b < 0 then NInf else PInf)"
| "fdiv NInf (Fin b) = (if b < 0 then PInf else NInf)"
| "fdiv PInf PInf = NaN"
| "fdiv PInf NInf = NaN"
| "fdiv NInf PInf = NaN"
| "fdiv NInf NInf = NaN"

fun fsqrt :: "flt \<Rightarrow> flt" where
  "fsqrt (Fin a) = (if a < 0 then NaN else Fin (sqrt a))"
| "fsqrt PInf = PInf"
| "fsqrt NInf = NaN"
| "fsqrt NaN = NaN"

definition is_integral :: "real \<Rightarrow> bool" where
  "is_integral e = (e = of_int \<lfloor>e\<rfloor>)"

text \<open>
  \<open>base ** e\<close> for a numpy float \<open>base\<close> and a finite Python float \<open>e\<close>: a negative base
  with a fractional exponent is NaN (numpy does not switch to complex numbers).
\<close>

fun fpow :: "flt \<Rightarrow> real \<Rightarrow> flt" where
  "fpow (Fin a) e =
     (if e = 0 then Fin 1
      else if 0 < a then Fin (a powr e)
      else if a = 0 then (if 0 < e then Fin 0 else PInf)
      else if is_integral e then
        (if even \<lfloor>e\<rfloor> then Fin ((- a) powr e) else Fin (- ((- a) powr e)))
      else NaN)"
| "fpow PInf e = (if e = 0 then Fin 1 else if 0 < e then PInf else Fin 0)"
| "fpow NInf e =
     (if e = 0 then Fin 1
      else if e < 0 then Fin 0
      else if is_integral e \<and> odd \<lfloor>e\<rfloor> then NInf else PInf)"
| "fpow NaN e = (if e = 0 then Fin 1 else NaN)"

text \<open>Comparisons: every comparison with NaN is false.\<close>

fun flt_less :: "flt \<Rightarrow> flt \<Rightarrow> bool" where
  "flt_less (Fin a) (Fin b) = (a < b)"
| "flt_less NaN _ = False"
| "flt_less _ NaN = False"
| "flt_less _ NInf = False"
| "flt_less NInf _ = True"
| "flt_less PInf _ = False"
| "flt_less _ PInf = True"

definition flt_le :: "flt \<Rightarrow> flt \<Rightarrow> bool" where
  "flt_le a b = (flt_less a b \<or> (a = b \<and> a \<noteq> NaN))"

definition flt_eq :: "flt \<Rightarrow> flt \<Rightarrow> bool" where
  "flt_eq a b = (a = b \<and> a \<noteq> NaN)"

text \<open>Python's built-in \<open>min(a, b)\<close> keeps \<open>a\<close> unless \<open>b < a\<close>.\<close>

definition py_min :: "flt \<Rightarrow> flt \<Rightarrow> flt" where
  "py_min a b = (if flt_less b a then b else a)"

subsection \<open>pandas reductions over a Series of floats\<close>

text \<open>
  A \<open>pd.Series\<close> of floats is a list. The reductions skip NaN (\<open>skipna=True\<close>, the
  default); \<open>std\<close> uses \<open>ddof=1\<close> and is NaN for fewer than two values, \<open>mean\<close> and
  \<open>min\<close> are NaN for no value.
\<close>

definition notna :: "flt list \<Rightarrow> flt list" where
  "notna xs = filter (\<lambda>x. x \<noteq> NaN) xs"

definition s_sum :: "flt list \<Rightarrow> flt" where
  "s_sum xs = foldl fadd (Fin 0) (notna xs)"

definition s_prod :: "flt list \<Rightarrow> flt" where
  "s_prod xs = foldl fmul (Fin 1) (notna xs)"

definition s_mean :: "flt list \<Rightarrow> flt" where
  "s_mean xs = (let ys = notna xs in
     if ys = [] then NaN else fdiv (foldl fadd (Fin 0) ys) (Fin (real (length ys))))"

definition s_std :: "flt list \<Rightarrow> flt" where
  "s_std xs = (let ys = notna xs; n = length ys in
     if n < 2 then NaN
     else let avg = fdiv (foldl fadd (Fin 0) ys) (Fin (real n));
              sqr = map (\<lambda>y. fmul (fsub avg y) (fsub avg y)) ys
          in fsqrt (fdiv (foldl fadd (Fin 0) sqr) (Fin (real n - 1))))"

fun cumprod_from :: "flt \<Rightarrow> flt list \<Rightarrow> flt list" where
  "cumprod_from acc [] = []"
| "cumprod_from acc (x # xs) =
     (if x = NaN then NaN # cumprod_from acc xs
      else fmul acc x # cumprod_from (fmul acc x) xs)"

definition s_cumprod :: "flt list \<Rightarrow> flt list" where
  "s_cumprod xs = cumprod_from (Fin 1) xs"

definition fmax :: "flt \<Rightarrow> flt \<Rightarrow> flt" where
  "fmax a b = (if flt_less a b then b else a)"

fun cummax_from :: "flt option \<Rightarrow> flt list \<Rightarrow> flt list" where
  "cummax_from m [] = []"
| "cummax_from m (x # xs) =
     (if x = NaN then NaN # cummax_from m xs
      else (let m' = (case m of None \<Rightarrow> x | Some y \<Rightarrow> fmax y x)
            in m' # cummax_from (Some m') xs))"

definition s_cummax :: "flt list \<Rightarrow> flt list" where
  "s_cummax xs = cummax_from None xs"

definition s_min :: "flt list \<Rightarrow> flt" where
  "s_min xs = (case notna xs of [] \<Rightarrow> NaN
     | y # ys \<Rightarrow> foldl (\<lambda>a b. if flt_less b a then b else a) y ys)"


subsection \<open>Dates\<close>

text \<open>
  A naive \<open>datetime\<close> is its number of microseconds since 0001-01-01 00:00:00, between
  0 and \<open>datetime_max\<close> (9999-12-31 23:59:59.999999). \<open>timedelta(days=d)\<close> raises
  OverflowError when the magnitude of \<open>d\<close> exceeds 999999999, and adding a timedelta
  raises OverflowError when the result leaves the range of \<open>datetime\<close>.
\<close>

type_synonym datetime = int

definition us_per_day :: int where
  "us_per_day = 86400000000"

definition datetime_max :: int where
  "datetime_max = 3652059 * us_per_day - 1"

definition timedelta_days :: "int \<Rightarrow> py_error + int" where
  "timedelta_days d = (if \<bar>d\<bar> \<le> 999999999 then Inr (d * us_per_day) else Inl OverflowError)"

definition dt_add :: "datetime \<Rightarrow> int \<Rightarrow> py_error + datetime" where
  "dt_add t delta =
     (let r = t + delta in if 0 \<le> r \<and> r \<le> datetime_max then Inr r else Inl OverflowError)"

definition dt_sub :: "datetime \<Rightarrow> int \<Rightarrow> py_error + datetime" where
  "dt_sub t delta = dt_add t (- delta)"

text \<open>\<open>(end_date - start_date).days\<close>: the whole days of the difference, rounded down.\<close>

definition days_between :: "datetime \<Rightarrow> datetime \<Rightarrow> int" where
  "days_between start_date end_date = (end_date - start_date) div us_per_day"

section \<open>validation\_framework.py\<close>

subsection \<open>Data model\<close>

text \<open>
  The period label of a result is a string built by the caller: a timeframe name,
  \<open>WF_Window_<n>\<close> or \<open>MC_<n>\<close>. The portfolio returned by the strategy function is a
  dictionary of which the validator reads the key \<open>stocks\<close> only.
\<close>

datatype period_label = Timeframe string | WF_Window int | MC int

record portfolio =
  stocks :: "string list option"

record BacktestResult =
  period :: period_label
  start_date :: datetime
  end_date :: datetime
  total_return :: flt
  sharpe_ratio :: flt
  max_drawdown :: flt
  win_rate :: flt
  num_trades :: nat
  stocks_selected :: "string list"
  annual_return :: flt
  volatility :: flt

text \<open>
  The strategy function is the opaque callable given to the validator; it is called
  with \<open>start_date\<close>, \<open>end_date\<close> and, by the Monte Carlo tester only, \<open>params\<close>.
  The random generator of numpy is a sequence of standard normal draws and the number
  of draws consumed so far.
\<close>

datatype param_value = PInt int | PFloat real

type_synonym strategy = "datetime \<Rightarrow> datetime \<Rightarrow> (string \<times> param_value) list option \<Rightarrow> portfolio"

type_synonym rng = "(nat \<Rightarrow> real) \<times> nat"

definition randn :: "int \<Rightarrow> rng \<Rightarrow> py_error + (real list \<times> rng)" where
  "randn n g =
     (if n < 0 then Inl ValueError
      else Inr (map (fst g) [snd g ..< snd g + nat n], (fst g, snd g + nat n)))"

subsection \<open>Performance metrics of the validator\<close>

definition calculate_portfolio_returns ::
  "portfolio \<Rightarrow> datetime \<Rightarrow> datetime \<Rightarrow> rng \<Rightarrow> py_error + (flt list \<times> rng)" where
  "calculate_portfolio_returns pf start_d end_d g =
     (case randn (days_between start_d end_d) g of
        Inl e \<Rightarrow> Inl e
      | Inr (zs, g') \<Rightarrow> Inr (map (\<lambda>z. Fin (z * 0.01)) zs, g'))"

definition calculate_sharpe :: "flt list \<Rightarrow> real \<Rightarrow> flt" where
  "calculate_sharpe returns risk_free_rate =
     (let excess_returns = map (\<lambda>r. fsub r (Fin (risk_free_rate / 252))) returns in
      if flt_eq (s_std returns) (Fin 0) then Fin 0
      else fdiv (fmul (fsqrt (Fin 252)) (s_mean excess_returns)) (s_std returns))"

definition calculate_max_drawdown :: "flt list \<Rightarrow> flt" where
  "calculate_max_drawdown returns =
     (let cumulative = s_cumprod (map (\<lambda>r. fadd (Fin 1) r) returns);
          running_max = s_cummax cumulative;
          drawdown = map (\<lambda>(c, m). fdiv (fsub c m) m) (zip cumulative running_max)
      in s_min drawdown)"

subsection \<open>A single backtest\<close>

definition run_backtest ::
  "strategy \<Rightarrow> rng \<Rightarrow> datetime \<Rightarrow> datetime \<Rightarrow> period_label \<Rightarrow> portfolio option
     \<Rightarrow> py_error + (BacktestResult \<times> rng)" where
  "run_backtest strategy_function g start_d end_d period_name predefined_portfolio =
     (let pf = (case predefined_portfolio of
                  None \<Rightarrow> strategy_function start_d end_d None
                | Some p \<Rightarrow> p)
      in case calculate_portfolio_returns pf start_d end_d g of
           Inl e \<Rightarrow> Inl e
         | Inr (returns, g') \<Rightarrow>
             (let total = fsub (s_prod (map (\<lambda>r. fadd r (Fin 1)) returns)) (Fin 1);
                  sharpe = calculate_sharpe returns 0.02;
                  mdd = calculate_max_drawdown returns;
                  days = days_between start_d end_d
              in if days = 0 then Inl ZeroDivisionError
                 else Inr (\<lparr> period = period_name,
                             start_date = start_d,
                             end_date = end_d,
                             total_return = total,
                             sharpe_ratio = sharpe,
                             max_drawdown = mdd,
                             win_rate = Fin 0,
                             num_trades = length (case stocks pf of None \<Rightarrow> [] | Some ss \<Rightarrow> ss),
                             stocks_selected = (case stocks pf of None \<Rightarrow> [] | Some ss \<Rightarrow> ss),
                             annual_return = fsub (fpow (fadd (Fin 1) total) (365 / real_of_int days)) (Fin 1),
                             volatility = fmul (s_std returns) (fsqrt (Fin 252)) \<rparr>, g')))"

subsection \<open>Walk-forward analysis\<close>

text \<open>
  One round of the loop is recorded as the train window given to the strategy function
  and the result of the backtest, whose \<open>start_date\<close> and \<open>end_date\<close> are the test
  window given to \<open>_run_backtest\<close>. The loop has no bound of its own: where it does
  not end, the model has no value (\<open>None\<close>).
\<close>

record wf_window =
  train_start :: datetime
  train_end :: datetime
  result :: BacktestResult

partial_function (option) wf_loop ::
  "strategy \<Rightarrow> datetime \<Rightarrow> int \<Rightarrow> int \<Rightarrow> int \<Rightarrow> datetime \<Rightarrow> int \<Rightarrow> rng \<Rightarrow> wf_window list
     \<Rightarrow> (py_error + wf_window list) option" where
  "wf_loop strategy_function end_d train_period_days test_period_days step_size_days
       current_train_start window_num g results =
     (case timedelta_days train_period_days of
        Inl e \<Rightarrow> Some (Inl e)
      | Inr d_train \<Rightarrow>
     (case dt_add current_train_start d_train of
        Inl e \<Rightarrow> Some (Inl e)
      | Inr current_train_end \<Rightarrow>
     (case timedelta_days test_period_days of
        Inl e \<Rightarrow> Some (Inl e)
      | Inr d_test \<Rightarrow>
     (case dt_add current_train_end d_test of
        Inl e \<Rightarrow> Some (Inl e)
      | Inr current_test_end \<Rightarrow>
          if current_test_end > end_d then Some (Inr results)
          else
     (case run_backtest strategy_function g current_train_end current_test_end
             (WF_Window window_num)
             (Some (strategy_function current_train_start current_train_end None)) of
        Inl e \<Rightarrow> Some (Inl e)
      | Inr (res, g') \<Rightarrow>
     (case timedelta_days step_size_days of
        Inl e \<Rightarrow> Some (Inl e)
      | Inr d_step \<Rightarrow>
     (case dt_add current_train_start d_step of
        Inl e \<Rightarrow> Some (Inl e)
      | Inr next_train_start \<Rightarrow>
          wf_loop strategy_function end_d train_period_days test_period_days step_size_days
            next_train_start (window_num + 1) g'
            (results @ [\<lparr> train_start = current_train_start,
                          train_end = current_train_end,
                          result = res \<rparr>]))))))))"

definition walk_forward_windows ::
  "strategy \<Rightarrow> datetime \<Rightarrow> rng \<Rightarrow> int \<Rightarrow> int \<Rightarrow> int \<Rightarrow> int \<Rightarrow> (py_error + wf_window list) option" where
  "walk_forward_windows strategy_function now g train_period_days test_period_days
       step_size_days total_history_days =
     (case timedelta_days total_history_days of
        Inl e \<Rightarrow> Some (Inl e)
      | Inr d_total \<Rightarrow>
     (case dt_sub now d_total of
        Inl e \<Rightarrow> Some (Inl e)
      | Inr start_d \<Rightarrow>
          wf_loop strategy_function now train_period_days test_period_days step_size_days
            start_d 1 g []))"

definition walk_forward_analysis ::
  "strategy \<Rightarrow> datetime \<Rightarrow> rng \<Rightarrow> int \<Rightarrow> int \<Rightarrow> int \<Rightarrow> int
     \<Rightarrow> (py_error + BacktestResult list) option" where
  "walk_forward_analysis strategy_function now g train_period_days test_period_days
       step_size_days total_history_days =
     map_option (map_sum id (map result))
       (walk_forward_windows strategy_function now g train_period_days test_period_days
          step_size_days total_history_days)"

text \<open>
  What the loop keeps true of every recorded round, for the end date \<open>E\<close> of the
  history and the train and test lengths in days; and that each round starts one step
  after the one before.
\<close>

definition window_ok :: "datetime \<Rightarrow> int \<Rightarrow> int \<Rightarrow> wf_window \<Rightarrow> bool" where
  "window_ok E tr te w \<longleftrightarrow>
     train_end w = train_start w + tr * us_per_day \<and>
     start_date (result w) = train_end w \<and>
     end_date (result w) = train_end w + te * us_per_day \<and>
     end_date (result w) \<le> E"

definition stepped :: "int \<Rightarrow> wf_window list \<Rightarrow> bool" where
  "stepped st ws \<longleftrightarrow>
     (\<forall>i. Suc i < length ws \<longrightarrow>
        train_start (ws ! Suc i) = train_start (ws ! i) + st * us_per_day)"

text \<open>A strategy, a generator and a date of the run (2026-11-03) for concrete runs.\<close>

definition example_strategy :: strategy where
  "example_strategy = (\<lambda>s e ps. \<lparr> stocks = Some [''A'', ''B''] \<rparr>)"

definition example_rng :: rng where
  "example_rng = (\<lambda>n. 0, 0)"

definition example_now :: datetime where
  "example_now = 739923 * us_per_day"

subsection \<open>Monte Carlo parameter draws\<close>










subsection \<open>Validation report\<close>

datatype warning =
    Timeframes_warning real
  | Walk_forward_warning real
  | Monte_Carlo_warning flt

record ValidationReport =
  multi_timeframe_results :: "(string \<times> BacktestResult) list"
  walk_forward_results :: "BacktestResult list"
  monte_carlo_results :: "string \<rightharpoonup> flt"
  robustness_score :: flt
  recommendation :: string
  warnings :: "warning list"

text \<open>\<open>len([s for s in sharpes if s > 0]) / len(sharpes) * 100\<close>, on Python integers.\<close>

definition positive_pct :: "flt list \<Rightarrow> py_error + real" where
  "positive_pct sharpes =
     (if length sharpes = 0 then Inl ZeroDivisionError
      else Inr (real (length (filter (\<lambda>s. flt_less (Fin 0) s) sharpes))
                  / real (length sharpes) * 100))"

text \<open>\<open>np.mean\<close> of a list: the sum over the count; NaN is not skipped.\<close>

definition np_mean :: "flt list \<Rightarrow> flt" where
  "np_mean xs = fdiv (foldl fadd (Fin 0) xs) (Fin (real (length xs)))"

definition recommend :: "flt \<Rightarrow> string" where
  "recommend score =
     (if flt_le (Fin 70) score then ''STRONG - Strategy is robust and ready for live trading''
      else if flt_le (Fin 50) score then ''MODERATE - Strategy shows promise but needs refinement''
      else if flt_le (Fin 30) score then ''WEAK - Strategy needs significant improvement''
      else ''FAIL - Strategy is not viable, reconsider approach'')"

definition generate_validation_report ::
  "(string \<times> BacktestResult) list \<Rightarrow> BacktestResult list \<Rightarrow> (string \<rightharpoonup> flt)
     \<Rightarrow> py_error + ValidationReport" where
  "generate_validation_report mt_results wf_results mc_results =
     (let mt_sharpes = map (\<lambda>(name, r). sharpe_ratio r) mt_results in
      case positive_pct mt_sharpes of
        Inl e \<Rightarrow> Inl e
      | Inr mt_positive_pct \<Rightarrow>
     (let mt_score = mt_positive_pct * 0.5;
          warnings1 = (if mt_positive_pct < 60 then [Timeframes_warning mt_positive_pct] else []);
          wf_sharpes = map sharpe_ratio wf_results in
      case positive_pct wf_sharpes of
        Inl e \<Rightarrow> Inl e
      | Inr wf_positive_pct \<Rightarrow>
     (let wf_score = wf_positive_pct * 0.5;
          warnings2 = warnings1 @
            (if wf_positive_pct < 50 then [Walk_forward_warning wf_positive_pct] else []) in
      case mc_results ''positive_sharpe_pct'' of
        None \<Rightarrow> Inl KeyError
      | Some mc_pct \<Rightarrow>
     (let mc_score = fmul mc_pct (Fin 0.5);
          warnings3 = warnings2 @
            (if flt_less mc_pct (Fin 70) then [Monte_Carlo_warning mc_pct] else []);
          avg_sharpe = np_mean (mt_sharpes @ wf_sharpes);
          sharpe_score = py_min (fmul avg_sharpe (Fin 50)) (Fin 50);
          score = fadd (fadd (fadd (Fin (mt_score * 0.25)) (Fin (wf_score * 0.35)))
                          (fmul mc_score (Fin 0.25)))
                    (fmul sharpe_score (Fin 0.15))
      in Inr \<lparr> multi_timeframe_results = mt_results,
                walk_forward_results = wf_results,
                monte_carlo_results = mc_results,
                robustness_score = score,
                recommendation = recommend score,
                warnings = warnings3 \<rparr>))))"

text \<open>A backtest result with a given Sharpe ratio, for concrete reports.\<close>

definition example_result :: "flt \<Rightarrow> BacktestResult" where
  "example_result s =
     \<lparr> period = Timeframe ''1yr'', start_date = 0, end_date = 365 * us_per_day,
       total_return = Fin 0, sharpe_ratio = s, max_drawdown = Fin 0, win_rate = Fin 0,
       num_trades = 0, stocks_selected = [], annual_return = Fin 0, volatility = Fin 0 \<rparr>"

definition example_monte_carlo :: "flt \<Rightarrow> (string \<rightharpoonup> flt)" where
  "example_monte_carlo pct = [''positive_sharpe_pct'' \<mapsto> pct]"

section \<open>module\_6\_backtest\_engine.py\<close>

subsection \<open>Price tables\<close>

text \<open>
  A column of closing prices is a list of dated cells (NaN for a missing price); the
  stock data maps a ticker to its column, or to \<open>None\<close> when its table has no
  \<open>Close\<close> column. A \<open>DataFrame\<close> is its index and its named columns, each as long
  as the index.
\<close>

type_synonym close_series = "(datetime \<times> flt) list"

type_synonym stock_data = "string \<rightharpoonup> close_series option"

record frame =
  fr_index :: "datetime list"
  fr_cols :: "(string \<times> flt list) list"

definition empty_frame :: frame where
  "empty_frame = \<lparr> fr_index = [], fr_cols = [] \<rparr>"

text \<open>
  \<open>prices[ticker] = series\<close>: a frame without rows takes the index of a series that
  has rows; a series with the index of the frame is taken as it is; any other series
  is aligned to the index of the frame, which pandas refuses (ValueError) when the
  labels of the series are not unique.
\<close>

definition set_column :: "frame \<Rightarrow> string \<Rightarrow> close_series \<Rightarrow> py_error + frame" where
  "set_column fr ticker ser =
     (if fr_index fr = [] then
        (if ser = [] then Inr (fr\<lparr> fr_cols := fr_cols fr @ [(ticker, [])] \<rparr>)
         else Inr \<lparr> fr_index = map fst ser,
                   fr_cols = map (\<lambda>(c, _). (c, replicate (length ser) NaN)) (fr_cols fr)
                             @ [(ticker, map snd ser)] \<rparr>)
      else if map fst ser = fr_index fr then
        Inr (fr\<lparr> fr_cols := fr_cols fr @ [(ticker, map snd ser)] \<rparr>)
      else if \<not> distinct (map fst ser) then Inl ValueError
      else Inr (fr\<lparr> fr_cols := fr_cols fr @
                  [(ticker, map (\<lambda>d. case map_of ser d of None \<Rightarrow> NaN | Some v \<Rightarrow> v)
                              (fr_index fr))] \<rparr>))"

fun collect_prices :: "frame \<Rightarrow> (string \<times> real) list \<Rightarrow> stock_data \<Rightarrow> py_error + frame" where
  "collect_prices prices [] sd = Inr prices"
| "collect_prices prices ((ticker, weight) # rest) sd =
     (case sd ticker of
        Some (Some ser) \<Rightarrow>
          (case set_column prices ticker ser of
             Inl e \<Rightarrow> Inl e
           | Inr prices' \<Rightarrow> collect_prices prices' rest sd)
      | _ \<Rightarrow> collect_prices prices rest sd)"

definition select_rows :: "bool list \<Rightarrow> 'a list \<Rightarrow> 'a list" where
  "select_rows keep xs = map snd (filter fst (zip keep xs))"

definition filter_rows :: "bool list \<Rightarrow> frame \<Rightarrow> frame" where
  "filter_rows keep fr =
     \<lparr> fr_index = select_rows keep (fr_index fr),
       fr_cols = map (\<lambda>(c, cells). (c, select_rows keep cells)) (fr_cols fr) \<rparr>"

definition filter_dates :: "frame \<Rightarrow> datetime \<Rightarrow> datetime \<Rightarrow> frame" where
  "filter_dates fr start_d end_d =
     filter_rows (map (\<lambda>d. start_d \<le> d \<and> d \<le> end_d) (fr_index fr)) fr"

text \<open>\<open>dropna(axis=1, thresh=t)\<close> keeps the columns with at least \<open>t\<close> prices.\<close>

definition dropna_columns :: "real \<Rightarrow> frame \<Rightarrow> frame" where
  "dropna_columns thresh fr =
     fr\<lparr> fr_cols := filter (\<lambda>(c, cells). real (length (notna cells)) \<ge> thresh) (fr_cols fr) \<rparr>"

fun ffill_from :: "flt \<Rightarrow> flt list \<Rightarrow> flt list" where
  "ffill_from prev [] = []"
| "ffill_from prev (x # xs) =
     (if x = NaN then prev # ffill_from prev xs else x # ffill_from x xs)"

definition ffill :: "frame \<Rightarrow> frame" where
  "ffill fr = fr\<lparr> fr_cols := map (\<lambda>(c, cells). (c, ffill_from NaN cells)) (fr_cols fr) \<rparr>"

text \<open>\<open>dropna()\<close> drops the rows that hold a NaN in some column.\<close>

definition complete_rows :: "frame \<Rightarrow> bool list" where
  "complete_rows fr =
     map (\<lambda>i. \<forall>(c, cells) \<in> set (fr_cols fr). cells ! i \<noteq> NaN) [0 ..< length (fr_index fr)]"

definition dropna_rows :: "frame \<Rightarrow> frame" where
  "dropna_rows fr = filter_rows (complete_rows fr) fr"

text \<open>\<open>pct_change()\<close>: the first row is NaN, every other the ratio to the row before, minus 1.\<close>

fun pct_from :: "flt \<Rightarrow> flt list \<Rightarrow> flt list" where
  "pct_from prev [] = []"
| "pct_from prev (x # xs) = fsub (fdiv x prev) (Fin 1) # pct_from x xs"

definition pct_change :: "frame \<Rightarrow> frame" where
  "pct_change fr = fr\<lparr> fr_cols := map (\<lambda>(c, cells). (c, pct_from NaN cells)) (fr_cols fr) \<rparr>"

text \<open>\<open>returns.dot(weights_array)\<close>: per row, the sum over the columns of return times weight.\<close>

definition dot :: "frame \<Rightarrow> real list \<Rightarrow> flt list" where
  "dot fr ws =
     foldl (\<lambda>acc ((c, cells), w). map (\<lambda>(a, r). fadd a (fmul r (Fin w))) (zip acc cells))
       (replicate (length (fr_index fr)) (Fin 0)) (zip (fr_cols fr) ws)"

subsection \<open>Performance metrics of the engine\<close>

definition annualize_return :: "flt \<Rightarrow> nat \<Rightarrow> flt" where
  "annualize_return total_ret num_days =
     (let years = real num_days / 252 in
      if years \<le> 0 then Fin 0
      else fsub (fpow (fadd (Fin 1) total_ret) (1 / years)) (Fin 1))"

definition engine_calculate_sharpe :: "flt list \<Rightarrow> real \<Rightarrow> flt" where
  "engine_calculate_sharpe returns risk_free_rate =
     (if length returns = 0 \<or> flt_eq (s_std returns) (Fin 0) then Fin 0
      else let excess_returns = map (\<lambda>r. fsub r (Fin (risk_free_rate / 252))) returns
           in fdiv (fmul (fsqrt (Fin 252)) (s_mean excess_returns)) (s_std returns))"

definition engine_calculate_max_drawdown :: "flt list \<Rightarrow> flt" where
  "engine_calculate_max_drawdown cumulative =
     (let running_max = s_cummax cumulative;
          drawdown = map (\<lambda>(c, m). fdiv (fsub c m) m) (zip cumulative running_max)
      in s_min drawdown)"

text \<open>\<open>(portfolio_returns > 0).sum() / len(portfolio_returns)\<close>, a numpy division.\<close>

definition win_rate_of :: "flt list \<Rightarrow> flt" where
  "win_rate_of returns =
     fdiv (Fin (real (length (filter (\<lambda>r. flt_less (Fin 0) r) returns))))
          (Fin (real (length returns)))"

subsection \<open>Backtest of a weighted portfolio\<close>

record backtest_metrics =
  bt_start_date :: datetime
  bt_end_date :: datetime
  initial_capital :: real
  final_value :: flt
  bt_total_return :: flt
  bt_annual_return :: flt
  bt_volatility :: flt
  bt_sharpe_ratio :: flt
  bt_max_drawdown :: flt
  bt_win_rate :: flt
  num_days :: nat
  portfolio_returns :: "flt list"
  portfolio_value :: "flt list"
  cumulative_returns :: "flt list"
  weights_used :: "(string \<times> real) list"

datatype backtest_outcome = Failure string | Success backtest_metrics

text \<open>The price table after the date filter, and after the cleaning of lines 62 and 65.\<close>

definition clean_prices :: "frame \<Rightarrow> frame" where
  "clean_prices prices =
     dropna_rows (ffill (dropna_columns (real (length (fr_index prices)) * 0.7) prices))"

definition weight_of :: "(string \<times> real) list \<Rightarrow> string \<Rightarrow> real" where
  "weight_of weights t = (case map_of weights t of None \<Rightarrow> 0 | Some w \<Rightarrow> w)"

definition total_weight :: "(string \<times> real) list \<Rightarrow> string list \<Rightarrow> real" where
  "total_weight weights available_tickers =
     sum_list (map (\<lambda>t. the (map_of weights t))
                 (filter (\<lambda>t. t \<in> set (map fst weights)) available_tickers))"

definition backtest_portfolio ::
  "real \<Rightarrow> (string \<times> real) list \<Rightarrow> stock_data \<Rightarrow> datetime \<Rightarrow> datetime
     \<Rightarrow> py_error + backtest_outcome" where
  "backtest_portfolio capital weights sd start_d end_d =
     (case collect_prices empty_frame weights sd of
        Inl e \<Rightarrow> Inl e
      | Inr all_prices \<Rightarrow>
     (let prices = filter_dates all_prices start_d end_d in
      if length (fr_index prices) = 0 then Inr (Failure ''No data in specified date range'')
      else
     (let prices = clean_prices prices in
      if length (fr_cols prices) = 0 then Inr (Failure ''Insufficient data after cleaning'')
      else
     (let available_tickers = map fst (fr_cols prices);
          total_w = total_weight weights available_tickers in
      if total_w = 0 then Inr (Failure ''No valid weights'')
      else
     (let normalized_weights = map (\<lambda>t. (t, weight_of weights t / total_w)) available_tickers;
          returns = dropna_rows (pct_change prices);
          weights_array = map (\<lambda>(t, cells). the (map_of normalized_weights t)) (fr_cols returns);
          p_returns = dot returns weights_array;
          cumulative = s_cumprod (map (\<lambda>r. fadd (Fin 1) r) p_returns);
          p_value = map (\<lambda>c. fmul c (Fin capital)) cumulative
      in if p_value = [] then Inl IndexError
         else
     (let total_ret = fsub (fdiv (last p_value) (Fin capital)) (Fin 1)
      in Inr (Success
           \<lparr> bt_start_date = start_d,
             bt_end_date = end_d,
             initial_capital = capital,
             final_value = last p_value,
             bt_total_return = total_ret,
             bt_annual_return = annualize_return total_ret (length p_returns),
             bt_volatility = fmul (s_std p_returns) (fsqrt (Fin 252)),
             bt_sharpe_ratio = engine_calculate_sharpe p_returns 0.02,
             bt_max_drawdown = engine_calculate_max_drawdown cumulative,
             bt_win_rate = win_rate_of p_returns,
             num_days = length p_returns,
             portfolio_returns = p_returns,
             portfolio_value = p_value,
             cumulative_returns = cumulative,
             weights_used = normalized_weights \<rparr>)))))))"

text \<open>The metrics of a backtest that succeeded.\<close>

fun metrics_of :: "py_error + backtest_outcome \<Rightarrow> backtest_metrics option" where
  "metrics_of (Inr (Success m)) = Some m"
| "metrics_of _ = None"

text \<open>
  A portfolio of two stocks with three daily closing prices each, which double every
  day, backtested over a window of 365 days.
\<close>

definition example_weights :: "(string \<times> real) list" where
  "example_weights = [(''A'', 0.6), (''B'', 0.4)]"

definition example_stock_data :: stock_data where
  "example_stock_data =
     [''A'' \<mapsto> Some [(0, Fin 100), (86400000000, Fin 200), (172800000000, Fin 400)],
      ''B'' \<mapsto> Some [(0, Fin 50), (86400000000, Fin 100), (172800000000, Fin 200)]]"

definition example_end :: datetime where
  "example_end = 365 * us_per_day"

text \<open>A portfolio of one stock without a single price in the window.\<close>

definition example_single_weight :: "(string \<times> real) list" where
  "example_single_weight = [(''A'', 1)]"

definition example_missing_data :: stock_data where
  "example_missing_data = [''A'' \<mapsto> Some [(0, NaN), (86400000000, NaN)]]"



section \<open>Walk-forward analysis: the windows and their number\<close>

lemma us_per_day_pos: "0 < us_per_day"
  by (simp add: us_per_day_def)

lemma run_backtest_window:
  assumes "run_backtest sf g s e nm pf = Inr (res, g')"
  shows "start_date res = s \<and> end_date res = e \<and> period res = nm"
  using assms
  by (auto simp: run_backtest_def Let_def split: sum.splits prod.splits if_splits)

lemma timedelta_days_Inr: "timedelta_days d = Inr x \<Longrightarrow> x = d * us_per_day"
  by (auto simp: timedelta_days_def split: if_splits)

lemma dt_add_Inr: "dt_add t d = Inr r \<Longrightarrow> r = t + d"
  by (auto simp: dt_add_def Let_def split: if_splits)

lemma stepped_snoc:
  assumes "stepped st ws" and "ws \<noteq> [] \<longrightarrow> train_start w = train_start (last ws) + st * us_per_day"
  shows "stepped st (ws @ [w])"
  unfolding stepped_def
proof (intro allI impI)
  fix i assume i: "Suc i < length (ws @ [w])"
  show "train_start ((ws @ [w]) ! Suc i) = train_start ((ws @ [w]) ! i) + st * us_per_day"
  proof (cases "Suc i < length ws")
    case True
    with assms(1) show ?thesis by (simp add: stepped_def nth_append)
  next
    case False
    with i have eq: "Suc i = length ws" by simp
    then have ne: "ws \<noteq> []" by auto
    have "last ws = ws ! i" using eq[symmetric] ne by (simp add: last_conv_nth)
    with assms(2) ne eq show ?thesis by (simp add: nth_append)
  qed
qed

lemma wf_loop_invariant:
  assumes run: "wf_loop sf E tr te st cur num g acc = Some (Inr ws)"
    and "\<forall>w \<in> set acc. window_ok E tr te w"
    and "stepped st acc"
    and "acc \<noteq> [] \<longrightarrow> cur = train_start (last acc) + st * us_per_day"
  shows "(\<forall>w \<in> set ws. window_ok E tr te w) \<and> stepped st ws"
proof -
  have "\<forall>ws. y = Inr ws \<longrightarrow> (\<forall>w \<in> set acc. window_ok E tr te w) \<longrightarrow> stepped st acc \<longrightarrow>
          (acc \<noteq> [] \<longrightarrow> cur = train_start (last acc) + st * us_per_day) \<longrightarrow>
          (\<forall>w \<in> set ws. window_ok E tr te w) \<and> stepped st ws"
    if h: "wf_loop sf E tr te st cur num g acc = Some y" for y
  proof (rule wf_loop.raw_induct[where P = "\<lambda>sf E tr te st cur num g acc y.
          \<forall>ws. y = Inr ws \<longrightarrow> (\<forall>w \<in> set acc. window_ok E tr te w) \<longrightarrow> stepped st acc \<longrightarrow>
          (acc \<noteq> [] \<longrightarrow> cur = train_start (last acc) + st * us_per_day) \<longrightarrow>
          (\<forall>w \<in> set ws. window_ok E tr te w) \<and> stepped st ws", OF _ h], goal_cases)
    case (1 loop sf E tr te st cur num g acc y)
    note IH = "1"(1) and body = "1"(2)
    show ?case
    proof (intro allI impI)
      fix ws
      assume y: "y = Inr ws" and ok: "\<forall>w \<in> set acc. window_ok E tr te w"
        and stp: "stepped st acc"
        and cur: "acc \<noteq> [] \<longrightarrow> cur = train_start (last acc) + st * us_per_day"
      from body y obtain d_train train_e d_test test_e where
        a: "timedelta_days tr = Inr d_train" "dt_add cur d_train = Inr train_e"
           "timedelta_days te = Inr d_test" "dt_add train_e d_test = Inr test_e"
        by (auto split: sum.splits)
      show "(\<forall>w \<in> set ws. window_ok E tr te w) \<and> stepped st ws"
      proof (cases "E < test_e")
        case True
        with body a y have "ws = acc" by simp
        with ok stp show ?thesis by simp
      next
        case False
        with body a y obtain res g' d_step nxt where
          b: "run_backtest sf g train_e test_e (WF_Window num) (Some (sf cur train_e None)) = Inr (res, g')"
             "timedelta_days st = Inr d_step" "dt_add cur d_step = Inr nxt"
          and rec: "loop sf E tr te st nxt (num + 1) g'
                 (acc @ [\<lparr>train_start = cur, train_end = train_e, result = res\<rparr>]) = Some (Inr ws)"
          by (auto split: sum.splits prod.splits)
        let ?w = "\<lparr>train_start = cur, train_end = train_e, result = res\<rparr>"
        have w_ok: "window_ok E tr te ?w"
          using a b(1) run_backtest_window[OF b(1)] False
          by (auto simp: window_ok_def dest!: timedelta_days_Inr dt_add_Inr)
        have nxt: "nxt = cur + st * us_per_day"
          using b(2,3) by (auto dest!: timedelta_days_Inr dt_add_Inr)
        have s': "stepped st (acc @ [?w])"
          using stp cur by (intro stepped_snoc) auto
        from IH[OF rec] w_ok ok s' nxt show ?thesis by simp
      qed
    qed
  qed
  with assms show ?thesis by blast
qed

lemma run_backtest_returns:
  assumes "0 < days_between s e"
  shows "\<exists>res g'. run_backtest sf g s e nm pf = Inr (res, g')"
  using assms
  by (simp add: run_backtest_def calculate_portfolio_returns_def randn_def Let_def)

lemma days_between_add: "days_between t (t + d * us_per_day) = d"
  using us_per_day_pos by (simp add: days_between_def)

lemma wf_loop_returns:
  assumes "0 < tr" "tr \<le> 999999999" "0 < te" "te \<le> 999999999" "0 < st" "st \<le> 999999999"
    and "E + st * us_per_day \<le> datetime_max"
    and "0 \<le> cur" "cur + (tr + te) * us_per_day \<le> datetime_max"
  shows "\<exists>ws. wf_loop sf E tr te st cur num g acc = Some (Inr ws) \<and>
           length ws = length acc +
             (if cur + (tr + te) * us_per_day \<le> E
              then nat ((E - cur - (tr + te) * us_per_day) div (st * us_per_day)) + 1 else 0)"
  using assms(8,9)
proof (induction "nat (E + 1 - cur)" arbitrary: cur num g acc rule: less_induct)
  case less
  let ?TT = "(tr + te) * us_per_day"
  let ?S = "st * us_per_day"
  have S_pos: "0 < ?S" using assms(5) us_per_day_pos by simp
  have tr_pos: "0 < tr * us_per_day" and te_pos: "0 < te * us_per_day"
    using assms(1,3) us_per_day_pos by simp_all
  have TT: "?TT = tr * us_per_day + te * us_per_day" by (simp add: algebra_simps)
  have td: "timedelta_days tr = Inr (tr * us_per_day)" "timedelta_days te = Inr (te * us_per_day)"
      "timedelta_days st = Inr ?S"
    using assms(1-6) by (simp_all add: timedelta_days_def)
  have a1: "dt_add cur (tr * us_per_day) = Inr (cur + tr * us_per_day)"
    using less.prems tr_pos te_pos TT by (simp add: dt_add_def)
  have a2: "dt_add (cur + tr * us_per_day) (te * us_per_day) = Inr (cur + ?TT)"
    using less.prems tr_pos te_pos TT by (simp add: dt_add_def)
  show ?case
  proof (cases "E < cur + ?TT")
    case True
    then show ?thesis
      by (subst wf_loop.simps) (simp add: td a1 a2)
  next
    case False
    have "0 < days_between (cur + tr * us_per_day) (cur + ?TT)"
      using days_between_add[of "cur + tr * us_per_day" te] assms(3) by (simp add: TT add.assoc)
    from run_backtest_returns[OF this] obtain res g' where
      rb: "run_backtest sf g (cur + tr * us_per_day) (cur + ?TT) (WF_Window num)
             (Some (sf cur (cur + tr * us_per_day) None)) = Inr (res, g')"
      by blast
    have a3: "dt_add cur ?S = Inr (cur + ?S)"
      using less.prems False S_pos assms(7) tr_pos te_pos TT by (simp add: dt_add_def)
    let ?acc' = "acc @ [\<lparr>train_start = cur, train_end = cur + tr * us_per_day, result = res\<rparr>]"
    have unfold: "wf_loop sf E tr te st cur num g acc =
        wf_loop sf E tr te st (cur + ?S) (num + 1) g' ?acc'"
      using False by (subst wf_loop.simps) (simp add: td a1 a2 a3 rb)
    have m: "nat (E + 1 - (cur + ?S)) < nat (E + 1 - cur)"
      using S_pos False tr_pos te_pos TT by simp
    have p1: "0 \<le> cur + ?S" using less.prems S_pos by simp
    have p2: "cur + ?S + ?TT \<le> datetime_max" using False assms(7) by simp
    from less.hyps[OF m p1 p2, of "num + 1" g' ?acc'] obtain ws where
      ws: "wf_loop sf E tr te st (cur + ?S) (num + 1) g' ?acc' = Some (Inr ws)"
        "length ws = length ?acc' +
           (if cur + ?S + ?TT \<le> E
            then nat ((E - (cur + ?S) - ?TT) div ?S) + 1 else 0)"
      by blast
    have cnt: "(if cur + ?S + ?TT \<le> E then nat ((E - (cur + ?S) - ?TT) div ?S) + 1 else 0) + 1
        = nat ((E - cur - ?TT) div ?S) + 1"
    proof (cases "cur + ?S + ?TT \<le> E")
      case True
      have "E - cur - ?TT = (E - (cur + ?S) - ?TT) + ?S" by simp
      then have "(E - cur - ?TT) div ?S = (E - (cur + ?S) - ?TT) div ?S + 1"
        using S_pos by (metis div_add_self2 less_irrefl)
      moreover have "0 \<le> (E - (cur + ?S) - ?TT) div ?S"
        using True S_pos by (simp add: pos_imp_zdiv_nonneg_iff)
      ultimately show ?thesis using True by simp
    next
      case F: False
      then have "E - cur - ?TT < ?S" by simp
      moreover have "0 \<le> E - cur - ?TT" using False by simp
      ultimately have "(E - cur - ?TT) div ?S = 0" by (simp add: div_pos_pos_trivial)
      with F show ?thesis by simp
    qed
    show ?thesis
      using ws cnt False unfolding unfold by (intro exI[of _ ws]) simp
  qed
qed

lemma walk_forward_windows_returns:
  assumes "0 < tr" "tr \<le> 999999999" "0 < te" "te \<le> 999999999" "0 < st" "st \<le> 999999999"
    and "\<bar>tot\<bar> \<le> 999999999"
    and "0 \<le> now - tot * us_per_day"
    and "now - tot * us_per_day + (tr + te) * us_per_day \<le> datetime_max"
    and "now + st * us_per_day \<le> datetime_max"
  shows "\<exists>ws. walk_forward_windows sf now g tr te st tot = Some (Inr ws) \<and>
           int (length ws) = (if 0 \<le> tot - tr - te then (tot - tr - te) div st + 1 else 0)"
proof -
  let ?s = "now - tot * us_per_day"
  have pos: "0 < (tr + te) * us_per_day" using assms(1,3) us_per_day_pos by simp
  have td: "timedelta_days tot = Inr (tot * us_per_day)"
    using assms(7) by (simp add: timedelta_days_def)
  have ds: "dt_sub now (tot * us_per_day) = Inr ?s"
    using assms(8,9) pos by (simp add: dt_sub_def dt_add_def)
  from wf_loop_returns[OF assms(1-6) assms(10) assms(8) assms(9), of sf 1 g "[]"]
  obtain ws where ws: "wf_loop sf now tr te st ?s 1 g [] = Some (Inr ws)"
    "length ws = (if ?s + (tr + te) * us_per_day \<le> now
       then nat ((now - ?s - (tr + te) * us_per_day) div (st * us_per_day)) + 1 else 0)"
    by auto
  have e1: "now - ?s - (tr + te) * us_per_day = (tot - tr - te) * us_per_day"
    by (simp add: algebra_simps)
  have e2: "(?s + (tr + te) * us_per_day \<le> now) = (0 \<le> tot - tr - te)"
  proof -
    have "(?s + (tr + te) * us_per_day \<le> now) = (0 \<le> (tot - tr - te) * us_per_day)"
      by (simp add: algebra_simps)
    also have "\<dots> = (0 \<le> tot - tr - te)"
      using us_per_day_pos by (simp add: zero_le_mult_iff)
    finally show ?thesis .
  qed
  have e3: "((tot - tr - te) * us_per_day) div (st * us_per_day) = (tot - tr - te) div st"
    using us_per_day_pos by simp
  have nn: "0 \<le> tot - tr - te \<Longrightarrow> 0 \<le> (tot - tr - te) div st"
    using assms(5) by (simp add: pos_imp_zdiv_nonneg_iff)
  have "int (length ws) = (if 0 \<le> tot - tr - te then (tot - tr - te) div st + 1 else 0)"
    using ws(2) nn unfolding e1 e2 e3 by simp
  moreover have "walk_forward_windows sf now g tr te st tot = Some (Inr ws)"
    by (simp add: walk_forward_windows_def td ds ws(1))
  ultimately show ?thesis by blast
qed

lemma window_count_formula:
  assumes "0 < (st::int)"
  shows "(if 0 \<le> D then D div st + 1 else 0) = (if 0 \<le> D div st + 1 then D div st + 1 else 0)"
proof (cases "0 \<le> D")
  case True
  then have "0 \<le> D div st" using assms by (simp add: pos_imp_zdiv_nonneg_iff)
  with True show ?thesis by simp
next
  case False
  then have "D < 0" by simp
  then have "D div st < 0" using assms by (simp add: div_neg_pos_less0)
  with False show ?thesis by simp
qed

text \<open>
  Claim C1. Whenever the walk-forward analysis returns, its results are the backtests of
  the recorded rounds, the test window of every round starts at the very date its train
  window ends, and the train window of each round starts exactly \<open>step_size_days\<close>
  days after the train window of the round before.
\<close>

theorem walk_forward_train_test_adjacent:
  assumes "walk_forward_windows strategy_function now g train_period_days test_period_days
             step_size_days total_history_days = Some (Inr ws)"
  shows "walk_forward_analysis strategy_function now g train_period_days test_period_days
             step_size_days total_history_days = Some (Inr (map result ws))
       \<and> (\<forall>w \<in> set ws. start_date (result w) = train_end w)
       \<and> (\<forall>i. Suc i < length ws \<longrightarrow>
             train_start (ws ! Suc i) = train_start (ws ! i) + step_size_days * us_per_day)"
proof -
  from assms obtain d_total start_d where
    "wf_loop strategy_function now train_period_days test_period_days step_size_days
       start_d 1 g [] = Some (Inr ws)"
    by (auto simp: walk_forward_windows_def split: sum.splits)
  from wf_loop_invariant[OF this]
  have "(\<forall>w \<in> set ws. window_ok now train_period_days test_period_days w)
      \<and> stepped step_size_days ws"
    by (simp add: stepped_def)
  then show ?thesis
    using assms by (simp add: walk_forward_analysis_def window_ok_def stepped_def)
qed

text \<open>
  The run of the specification's example (365 train days, 90 test days, steps of 90
  days, 730 days of history) returns four rounds, to which the theorem applies.
\<close>

theorem walk_forward_train_test_adjacent_witness:
  "\<exists>ws. walk_forward_windows example_strategy example_now example_rng 365 90 90 730 = Some (Inr ws)
      \<and> length ws = 4
      \<and> walk_forward_analysis example_strategy example_now example_rng 365 90 90 730
           = Some (Inr (map result ws))
      \<and> (\<forall>w \<in> set ws. start_date (result w) = train_end w)
      \<and> (\<forall>i. Suc i < length ws \<longrightarrow>
             train_start (ws ! Suc i) = train_start (ws ! i) + 90 * us_per_day)"
proof -
  have "\<exists>ws. walk_forward_windows example_strategy example_now example_rng 365 90 90 730
          = Some (Inr ws) \<and>
        int (length ws) = (if (0::int) \<le> 730 - 365 - 90 then (730 - 365 - 90) div 90 + 1 else 0)"
    by (rule walk_forward_windows_returns)
       (simp_all add: example_now_def us_per_day_def datetime_max_def)
  then obtain ws where
    ws: "walk_forward_windows example_strategy example_now example_rng 365 90 90 730 = Some (Inr ws)"
    and len: "length ws = 4"
    by auto
  from walk_forward_train_test_adjacent[OF ws] ws len show ?thesis by blast
qed

text \<open>
  Claim C2, amended. For positive train, test and step lengths, when every date the loop
  computes is a date \<open>datetime\<close> can hold (the start of the history is not before
  0001-01-01, the first test window and a step past now are not after 9999-12-31, and
  no length exceeds 999999999 days), the analysis ends and returns exactly
  \<open>floor((total_history_days - train_period_days - test_period_days) / step_size_days) + 1\<close>
  results when that number is not negative and none otherwise; no result has a test
  window that ends after now.
\<close>

theorem walk_forward_window_count:
  assumes "0 < train_period_days" and "0 < test_period_days" and "0 < step_size_days"
    and "train_period_days \<le> 999999999" and "test_period_days \<le> 999999999"
    and "step_size_days \<le> 999999999" and "\<bar>total_history_days\<bar> \<le> 999999999"
    and "0 \<le> now - total_history_days * us_per_day"
    and "now - total_history_days * us_per_day
           + (train_period_days + test_period_days) * us_per_day \<le> datetime_max"
    and "now + step_size_days * us_per_day \<le> datetime_max"
  shows "\<exists>rs. walk_forward_analysis strategy_function now g train_period_days test_period_days
                 step_size_days total_history_days = Some (Inr rs)
       \<and> int (length rs) =
           (if 0 \<le> (total_history_days - train_period_days - test_period_days) div step_size_days + 1
            then (total_history_days - train_period_days - test_period_days) div step_size_days + 1
            else 0)
       \<and> (\<forall>r \<in> set rs. end_date r \<le> now)"
proof -
  from walk_forward_windows_returns[OF assms(1) assms(4) assms(2) assms(5) assms(3) assms(6)
      assms(7-10), of strategy_function g]
  obtain ws where
    ws: "walk_forward_windows strategy_function now g train_period_days test_period_days
           step_size_days total_history_days = Some (Inr ws)"
    and len: "int (length ws) =
       (if 0 \<le> total_history_days - train_period_days - test_period_days
        then (total_history_days - train_period_days - test_period_days) div step_size_days + 1
        else 0)"
    by blast
  from ws obtain start_d where
    "wf_loop strategy_function now train_period_days test_period_days step_size_days
       start_d 1 g [] = Some (Inr ws)"
    by (auto simp: walk_forward_windows_def split: sum.splits)
  from wf_loop_invariant[OF this]
  have ok: "\<forall>w \<in> set ws. window_ok now train_period_days test_period_days w"
    by (simp add: stepped_def)
  have "walk_forward_analysis strategy_function now g train_period_days test_period_days
          step_size_days total_history_days = Some (Inr (map result ws))"
    using ws by (simp add: walk_forward_analysis_def)
  moreover have "int (length (map result ws)) =
           (if 0 \<le> (total_history_days - train_period_days - test_period_days) div step_size_days + 1
            then (total_history_days - train_period_days - test_period_days) div step_size_days + 1
            else 0)"
    using len
      window_count_formula[OF assms(3), of "total_history_days - train_period_days - test_period_days"]
    by (simp only: length_map)
  moreover have "\<forall>r \<in> set (map result ws). end_date r \<le> now"
    using ok by (auto simp: window_ok_def)
  ultimately show ?thesis by blast
qed

text \<open>The example of the specification: four windows.\<close>

theorem walk_forward_window_count_witness:
  "\<exists>rs. walk_forward_analysis example_strategy example_now example_rng 365 90 90 730 = Some (Inr rs)
      \<and> length rs = 4 \<and> (\<forall>r \<in> set rs. end_date r \<le> example_now)"
proof -
  have "\<exists>rs. walk_forward_analysis example_strategy example_now example_rng 365 90 90 730
          = Some (Inr rs)
       \<and> int (length rs) =
           (if (0::int) \<le> (730 - 365 - 90) div 90 + 1 then (730 - 365 - 90) div 90 + 1 else 0)
       \<and> (\<forall>r \<in> set rs. end_date r \<le> example_now)"
    by (rule walk_forward_window_count)
       (simp_all add: example_now_def us_per_day_def datetime_max_def)
  then show ?thesis by auto
qed

text \<open>
  Claim C2 as stated fails: with a train window of 3000000 days, all lengths positive,
  the first train window would end after the year 9999 and the analysis raises
  OverflowError instead of returning the empty sequence.
\<close>

theorem walk_forward_overflow_counterexample:
  "walk_forward_analysis example_strategy example_now example_rng 3000000 90 90 1825
     = Some (Inl OverflowError)"
  by (simp add: walk_forward_analysis_def walk_forward_windows_def timedelta_days_def
      dt_sub_def dt_add_def example_now_def us_per_day_def datetime_max_def wf_loop.simps)

section \<open>The validation report: bounds of the robustness score\<close>


lemma positive_pct_range:
  assumes "positive_pct xs = Inr p"
  shows "0 \<le> p \<and> p \<le> 100"
proof -
  define q where "q = real (length (filter (\<lambda>s. flt_less (Fin 0) s) xs)) / real (length xs)"
  from assms have ne: "length xs \<noteq> 0" and p: "p = q * 100"
    by (auto simp: positive_pct_def q_def split: if_splits)
  have "real (length (filter (\<lambda>s. flt_less (Fin 0) s) xs)) \<le> real (length xs)"
    by simp
  then have "q \<le> 1"
    using ne unfolding q_def by (simp add: divide_le_eq_1)
  moreover have "0 \<le> q"
    unfolding q_def by simp
  ultimately show ?thesis unfolding p by simp
qed

lemma py_min_capped: "\<not> flt_less (Fin c) (py_min x (Fin c))"
  by (cases x) (auto simp: py_min_def)

lemma flt_between_Fin:
  assumes "flt_le (Fin a) x" and "flt_le x (Fin b)"
  shows "\<exists>r. x = Fin r \<and> a \<le> r \<and> r \<le> b"
  using assms by (cases x) (auto simp: flt_le_def)

lemma weighted_sum_capped:
  assumes "tpct \<le> 100" "wpct \<le> 100" "p \<le> 100" and "\<not> flt_less (Fin 50) s"
  shows "\<not> flt_less (Fin 50)
           (fadd (fadd (fadd (Fin (tpct * 0.5 * 0.25)) (Fin (wpct * 0.5 * 0.35)))
                       (fmul (fmul (Fin p) (Fin 0.5)) (Fin 0.25)))
                 (fmul s (Fin 0.15)))"
  using assms by (cases s) (auto simp: inf_signed_def)

lemma recommend_not_strong:
  assumes "\<not> flt_less (Fin 50) score"
  shows "recommend score \<noteq> ''STRONG - Strategy is robust and ready for live trading''"
  using assms by (cases score) (auto simp: recommend_def flt_le_def)

text \<open>
  Claim C4. Whenever a report is returned and the Monte Carlo percentage of positive
  Sharpe ratios lies between 0 and 100, the robustness score does not exceed 50 (each
  of the four sub-scores is at most 50 and the weights add up to 1), so the
  recommendation is never the tier STRONG.
\<close>

theorem robustness_score_at_most_50:
  assumes "generate_validation_report mt_results wf_results mc_results = Inr report"
    and "mc_results ''positive_sharpe_pct'' = Some mc_pct"
    and "flt_le (Fin 0) mc_pct" and "flt_le mc_pct (Fin 100)"
  shows "\<not> flt_less (Fin 50) (robustness_score report)
       \<and> recommendation report \<noteq> ''STRONG - Strategy is robust and ready for live trading''"
proof -
  from flt_between_Fin[OF assms(3,4)] obtain p where p: "mc_pct = Fin p" "p \<le> 100" by blast
  from assms(1) obtain tpct wpct where
    tpct: "positive_pct (map (\<lambda>(name, r). sharpe_ratio r) mt_results) = Inr tpct"
    and wpct: "positive_pct (map sharpe_ratio wf_results) = Inr wpct"
    by (auto simp: generate_validation_report_def Let_def split: sum.splits)
  let ?s = "py_min (fmul (np_mean (map (\<lambda>(name, r). sharpe_ratio r) mt_results
                                   @ map sharpe_ratio wf_results)) (Fin 50)) (Fin 50)"
  let ?score = "fadd (fadd (fadd (Fin (tpct * 0.5 * 0.25)) (Fin (wpct * 0.5 * 0.35)))
                       (fmul (fmul (Fin p) (Fin 0.5)) (Fin 0.25)))
                 (fmul ?s (Fin 0.15))"
  have score: "robustness_score report = ?score" and rec: "recommendation report = recommend ?score"
    using assms(1,2) tpct wpct p(1)
    by (auto simp: generate_validation_report_def Let_def)
  have cap: "\<not> flt_less (Fin 50) ?score"
    using positive_pct_range[OF tpct] positive_pct_range[OF wpct] p(2) py_min_capped
    by (intro weighted_sum_capped) auto
  show ?thesis
    unfolding score rec using cap recommend_not_strong by blast
qed

text \<open>
  The best report there is: every Sharpe ratio is 2 and every Monte Carlo draw has a
  positive Sharpe ratio. The score is 50 and the tier MODERATE.
\<close>

theorem robustness_score_at_most_50_witness:
  "generate_validation_report [(''1yr'', example_result (Fin 2))] [example_result (Fin 2)]
       (example_monte_carlo (Fin 100))
     = Inr \<lparr> multi_timeframe_results = [(''1yr'', example_result (Fin 2))],
             walk_forward_results = [example_result (Fin 2)],
             monte_carlo_results = example_monte_carlo (Fin 100),
             robustness_score = Fin 50,
             recommendation = ''MODERATE - Strategy shows promise but needs refinement'',
             warnings = [] \<rparr>
   \<and> \<not> flt_less (Fin 50) (Fin 50)"
proof -
  have run: "generate_validation_report [(''1yr'', example_result (Fin 2))] [example_result (Fin 2)]
       (example_monte_carlo (Fin 100))
     = Inr \<lparr> multi_timeframe_results = [(''1yr'', example_result (Fin 2))],
             walk_forward_results = [example_result (Fin 2)],
             monte_carlo_results = example_monte_carlo (Fin 100),
             robustness_score = Fin 50,
             recommendation = ''MODERATE - Strategy shows promise but needs refinement'',
             warnings = [] \<rparr>"
    by (simp add: generate_validation_report_def positive_pct_def example_result_def
        example_monte_carlo_def np_mean_def py_min_def recommend_def flt_le_def Let_def)
  have mc: "example_monte_carlo (Fin 100) ''positive_sharpe_pct'' = Some (Fin 100)"
    by (simp add: example_monte_carlo_def)
  have b: "flt_le (Fin 0) (Fin 100)" "flt_le (Fin 100) (Fin 100)"
    by (simp_all add: flt_le_def)
  from robustness_score_at_most_50[OF run mc b] run show ?thesis by simp
qed

text \<open>
  Claim C3 fails on the code. The Sharpe sub-score \<open>min(avg_sharpe * 50, 50)\<close> is
  capped from above only: with one timeframe and one walk-forward window of Sharpe
  ratio -1 and no Monte Carlo draw of positive Sharpe ratio, the robustness score of the
  returned report is -7.5, below the range 0 to 100 the code documents.
\<close>

theorem robustness_score_negative:
  "map_sum id robustness_score
     (generate_validation_report [(''1yr'', example_result (Fin (- 1)))]
        [example_result (Fin (- 1))] (example_monte_carlo (Fin 0)))
     = Inr (Fin (- 7.5))
   \<and> \<not> flt_le (Fin 0) (Fin (- 7.5))"
  by (simp add: generate_validation_report_def positive_pct_def example_result_def
      example_monte_carlo_def np_mean_def py_min_def Let_def flt_le_def)


section \<open>The Sharpe ratio of an empty series\<close>

text \<open>
  Claim C5 fails on the validator. On the empty series \<open>std\<close> is NaN, the test
  \<open>returns.std() == 0\<close> is false and the validator's \<open>_calculate_sharpe\<close> returns
  NaN, where the engine's \<open>_calculate_sharpe\<close>, which tests the length first,
  returns 0.
\<close>

theorem validator_sharpe_of_empty_series:
  "calculate_sharpe [] 0.02 = NaN \<and> engine_calculate_sharpe [] 0.02 = Fin 0"
  by (simp add: calculate_sharpe_def engine_calculate_sharpe_def s_std_def s_mean_def
      notna_def flt_eq_def)

section \<open>Monte Carlo parameter draws\<close>










section \<open>The backtest engine\<close>

subsection \<open>Two concrete backtests\<close>


lemma ex_collect:
  "collect_prices empty_frame example_weights example_stock_data
     = Inr \<lparr> fr_index = [0, 86400000000, 172800000000],
             fr_cols = [(''A'', [Fin 100, Fin 200, Fin 400]), (''B'', [Fin 50, Fin 100, Fin 200])] \<rparr>"
  by (simp add: example_weights_def example_stock_data_def empty_frame_def set_column_def)

lemma ex_filter:
  "filter_dates \<lparr> fr_index = [0, 86400000000, 172800000000],
             fr_cols = [(''A'', [Fin 100, Fin 200, Fin 400]), (''B'', [Fin 50, Fin 100, Fin 200])] \<rparr>
      0 example_end
   = \<lparr> fr_index = [0, 86400000000, 172800000000],
             fr_cols = [(''A'', [Fin 100, Fin 200, Fin 400]), (''B'', [Fin 50, Fin 100, Fin 200])] \<rparr>"
  by (simp add: filter_dates_def filter_rows_def select_rows_def example_end_def us_per_day_def)

lemma upt3: "[0..<3] = [0, 1, 2]"
  by (simp add: upt_rec)

lemma ex_clean:
  "clean_prices \<lparr> fr_index = [0, 86400000000, 172800000000],
             fr_cols = [(''A'', [Fin 100, Fin 200, Fin 400]), (''B'', [Fin 50, Fin 100, Fin 200])] \<rparr>
   = \<lparr> fr_index = [0, 86400000000, 172800000000],
             fr_cols = [(''A'', [Fin 100, Fin 200, Fin 400]), (''B'', [Fin 50, Fin 100, Fin 200])] \<rparr>"
  by (simp add: clean_prices_def dropna_columns_def notna_def ffill_def dropna_rows_def
      complete_rows_def filter_rows_def select_rows_def upt3)

lemma ex_returns:
  "dropna_rows (pct_change \<lparr> fr_index = [0, 86400000000, 172800000000],
             fr_cols = [(''A'', [Fin 100, Fin 200, Fin 400]), (''B'', [Fin 50, Fin 100, Fin 200])] \<rparr>)
   = \<lparr> fr_index = [86400000000, 172800000000],
       fr_cols = [(''A'', [Fin 1, Fin 1]), (''B'', [Fin 1, Fin 1])] \<rparr>"
  by (simp add: pct_change_def dropna_rows_def complete_rows_def filter_rows_def select_rows_def
      upt3 fsub_def)

lemma ex_dot:
  "dot \<lparr> fr_index = [86400000000, 172800000000],
       fr_cols = [(''A'', [Fin 1, Fin 1]), (''B'', [Fin 1, Fin 1])] \<rparr> [3 / 5, 2 / 5]
   = [Fin 1, Fin 1]"
  by (simp add: dot_def numeral_2_eq_2)

lemma ex_total: "total_weight example_weights [''A'', ''B''] = 1"
  by (simp add: total_weight_def example_weights_def)

lemma ex_norm:
  "weight_of example_weights ''A'' = 0.6" "weight_of example_weights ''B'' = 0.4"
  by (simp_all add: weight_of_def example_weights_def)

lemma ex_std: "s_std [Fin 1, Fin 1] = Fin 0"
  by (simp add: s_std_def notna_def fsub_def Let_def)

lemma ex_backtest:
  "backtest_portfolio 100000 example_weights example_stock_data 0 example_end
     = Inr (Success
         \<lparr> bt_start_date = 0,
           bt_end_date = example_end,
           initial_capital = 100000,
           final_value = Fin 400000,
           bt_total_return = Fin 3,
           bt_annual_return = Fin (4 ^ 126 - 1),
           bt_volatility = Fin 0,
           bt_sharpe_ratio = Fin 0,
           bt_max_drawdown = Fin 0,
           bt_win_rate = Fin 1,
           num_days = 2,
           portfolio_returns = [Fin 1, Fin 1],
           portfolio_value = [Fin 200000, Fin 400000],
           cumulative_returns = [Fin 2, Fin 4],
           weights_used = [(''A'', 0.6), (''B'', 0.4)] \<rparr>)"
  by (simp add: backtest_portfolio_def ex_collect ex_filter ex_clean ex_returns ex_total
      ex_dot ex_std ex_norm Let_def s_cumprod_def
      annualize_return_def engine_calculate_sharpe_def engine_calculate_max_drawdown_def
      s_cummax_def s_min_def notna_def fmax_def fsub_def win_rate_of_def flt_eq_def)

subsection \<open>Failure results and normalised weights\<close>


text \<open>
  Claim C7. When the price table of the portfolio can be built, and no instrument is
  left after the date filter and the cleaning, or the weights of the instruments left
  add up to zero, \<open>backtest_portfolio\<close> returns a failure record (\<open>success\<close> false
  and a message, no metrics) and raises nothing.
\<close>

theorem backtest_fails_without_instruments:
  assumes "collect_prices empty_frame weights sd = Inr all_prices"
    and "surviving = map fst (fr_cols (clean_prices (filter_dates all_prices start_d end_d)))"
    and "surviving = [] \<or> total_weight weights surviving = 0"
  shows "\<exists>message. backtest_portfolio capital weights sd start_d end_d = Inr (Failure message)"
  using assms by (auto simp: backtest_portfolio_def Let_def)












lemma upt2: "[0..<2] = [0, 1]"
  by (simp add: upt_rec)

lemma ex_missing_collect:
  "collect_prices empty_frame example_single_weight example_missing_data
     = Inr \<lparr> fr_index = [0, 86400000000], fr_cols = [(''A'', [NaN, NaN])] \<rparr>"
  by (simp add: example_missing_data_def example_single_weight_def empty_frame_def set_column_def)

lemma ex_missing_filter:
  "filter_dates \<lparr> fr_index = [0, 86400000000], fr_cols = [(''A'', [NaN, NaN])] \<rparr> 0 example_end
     = \<lparr> fr_index = [0, 86400000000], fr_cols = [(''A'', [NaN, NaN])] \<rparr>"
  by (simp add: filter_dates_def filter_rows_def select_rows_def example_end_def us_per_day_def)

lemma ex_missing_clean:
  "clean_prices \<lparr> fr_index = [0, 86400000000], fr_cols = [(''A'', [NaN, NaN])] \<rparr>
     = \<lparr> fr_index = [0, 86400000000], fr_cols = [] \<rparr>"
  by (simp add: clean_prices_def dropna_columns_def notna_def ffill_def dropna_rows_def
      complete_rows_def filter_rows_def select_rows_def upt2)

text \<open>
  A portfolio whose only instrument has no price at all in the window: the column is
  dropped by the cleaning and the result is the failure record.
\<close>

theorem backtest_fails_without_instruments_witness:
  "backtest_portfolio 100000 example_single_weight example_missing_data 0 example_end
     = Inr (Failure ''Insufficient data after cleaning'')
   \<and> (\<exists>message. backtest_portfolio 100000 example_single_weight example_missing_data 0 example_end
         = Inr (Failure message))"
proof -
  have run: "backtest_portfolio 100000 example_single_weight example_missing_data 0 example_end
     = Inr (Failure ''Insufficient data after cleaning'')"
    by (simp add: backtest_portfolio_def ex_missing_collect ex_missing_filter ex_missing_clean
        Let_def)
  have s: "[] = map fst (fr_cols (clean_prices (filter_dates
       \<lparr> fr_index = [0, 86400000000], fr_cols = [(''A'', [NaN, NaN])] \<rparr> 0 example_end)))"
    by (simp add: ex_missing_filter ex_missing_clean)
  have "\<exists>message. backtest_portfolio 100000 example_single_weight example_missing_data 0 example_end
         = Inr (Failure message)"
    by (rule backtest_fails_without_instruments[OF ex_missing_collect s]) simp
  with run show ?thesis by simp
qed


lemma length_cumprod_from: "length (cumprod_from a xs) = length xs"
  by (induction xs arbitrary: a) simp_all


subsection \<open>Annualised return\<close>

text \<open>
  Claim C6, amended. The validator annualises over the calendar span of the window:
  \<open>(1 + total_return) ** (365 / days) - 1\<close> with \<open>days = (end_date - start_date).days\<close>.
  The backtest engine annualises over the number \<open>n\<close> of daily returns, at 252
  trading days a year: \<open>(1 + total_return) ** (252 / n) - 1\<close>.
\<close>

theorem annual_return_formulas:
  "(run_backtest strategy_function g start_d end_d period_name predefined = Inr (res, g') \<longrightarrow>
      annual_return res =
        fsub (fpow (fadd (Fin 1) (total_return res))
                (365 / real_of_int (days_between start_d end_d))) (Fin 1))
   \<and> (backtest_portfolio capital weights sd start_d end_d = Inr (Success m) \<longrightarrow>
      bt_annual_return m =
        fsub (fpow (fadd (Fin 1) (bt_total_return m)) (252 / real (num_days m))) (Fin 1))"
proof (intro conjI impI)
  assume "run_backtest strategy_function g start_d end_d period_name predefined = Inr (res, g')"
  then show "annual_return res =
        fsub (fpow (fadd (Fin 1) (total_return res))
                (365 / real_of_int (days_between start_d end_d))) (Fin 1)"
    by (auto simp: run_backtest_def Let_def split: sum.splits prod.splits if_splits)
next
  assume a: "backtest_portfolio capital weights sd start_d end_d = Inr (Success m)"
  then have "bt_annual_return m = annualize_return (bt_total_return m) (num_days m)
           \<and> num_days m = length (portfolio_returns m)
           \<and> portfolio_value m \<noteq> []
           \<and> length (portfolio_value m) = length (portfolio_returns m)"
    by (auto simp: backtest_portfolio_def Let_def s_cumprod_def length_cumprod_from
        split: sum.splits if_splits)
  then have ar: "bt_annual_return m = annualize_return (bt_total_return m) (num_days m)"
    and pos: "0 < num_days m"
    by auto
  show "bt_annual_return m =
        fsub (fpow (fadd (Fin 1) (bt_total_return m)) (252 / real (num_days m))) (Fin 1)"
    unfolding ar using pos by (simp add: annualize_return_def Let_def)
qed

lemma ex_backtest_metrics:
  "\<exists>m. backtest_portfolio 100000 example_weights example_stock_data 0 example_end
          = Inr (Success m)
       \<and> bt_total_return m = Fin 3 \<and> bt_annual_return m = Fin (4 ^ 126 - 1) \<and> num_days m = 2"
  by (simp add: ex_backtest)

text \<open>A backtest of the validator and the backtest of the two-stock portfolio.\<close>

theorem annual_return_formulas_witness:
  "(\<exists>res g'. run_backtest example_strategy example_rng 0 example_end (Timeframe ''1yr'') None
               = Inr (res, g')
       \<and> annual_return res =
            fsub (fpow (fadd (Fin 1) (total_return res))
                    (365 / real_of_int (days_between 0 example_end))) (Fin 1))
   \<and> (\<exists>m. backtest_portfolio 100000 example_weights example_stock_data 0 example_end
              = Inr (Success m)
       \<and> bt_annual_return m =
            fsub (fpow (fadd (Fin 1) (bt_total_return m)) (252 / real (num_days m))) (Fin 1))"
proof -
  have "0 < days_between 0 example_end"
    by (simp add: days_between_def example_end_def us_per_day_def)
  from run_backtest_returns[OF this] obtain res g' where
    r: "run_backtest example_strategy example_rng 0 example_end (Timeframe ''1yr'') None
          = Inr (res, g')"
    by blast
  from ex_backtest_metrics obtain m where
    m: "backtest_portfolio 100000 example_weights example_stock_data 0 example_end
          = Inr (Success m)"
    by blast
  from annual_return_formulas[of example_strategy example_rng 0 example_end "Timeframe ''1yr''"
      None res g' 100000 example_weights example_stock_data m] r m
  show ?thesis by blast
qed

text \<open>
  Claim C6 as stated fails on the engine: over a window of 365 days with two daily
  returns and a total return of 3, the formula of the claim gives an annual return of
  3, the engine \<open>4 ^ 126 - 1\<close>.
\<close>

theorem engine_annual_return_counterexample:
  "map_option bt_total_return
     (metrics_of (backtest_portfolio 100000 example_weights example_stock_data 0 example_end))
     = Some (Fin 3)
   \<and> map_option bt_annual_return
     (metrics_of (backtest_portfolio 100000 example_weights example_stock_data 0 example_end))
     = Some (Fin (4 ^ 126 - 1))
   \<and> days_between 0 example_end = 365
   \<and> fsub (fpow (fadd (Fin 1) (Fin 3)) (365 / real_of_int (days_between 0 example_end))) (Fin 1)
     = Fin 3
   \<and> Fin (4 ^ 126 - 1) \<noteq> Fin 3"
proof -
  have d: "days_between 0 example_end = 365"
    by (simp add: days_between_def example_end_def us_per_day_def)
  have f: "fsub (fpow (fadd (Fin 1) (Fin 3)) (365 / real_of_int 365)) (Fin 1) = Fin 3"
    by (simp add: fsub_def)
  show ?thesis
    unfolding d using f by (simp add: ex_backtest)
qed

section \<open>Maximum drawdown and win rate\<close>












end
